theory Spec2Isabelle
  imports Complex_Main "HOL-Library.Word"
begin

section \<open>The dataset construction of build\_dataset.py\<close>

text \<open>
  The program is a single batch transform over pandas tables. A table is modelled as the
  list of its rows, in row order; a column expression of the source, which pandas applies
  to every row at once, is modelled by the function it applies to one row. Exceptions of
  the source are values of the type \<open>error\<close>.
\<close>

datatype error = KeyError | ValueError | AssertionError | DuplicateColumns

subsection \<open>Career stage (lines 101 to 107)\<close>

text \<open>
  \<open>Q4\<close> is cast to the nullable 64-bit integer type \<open>Int64\<close>; a null year is
  \<open>None\<close>. The subtraction \<open>2021 - Q4\<close> is 64-bit arithmetic and keeps nulls.
\<close>

type_synonym int64 = "64 word"

definition Q4_years :: "int64 option \<Rightarrow> int64 option" where
  "Q4_years q4 = map_option (\<lambda>y. 2021 - y) q4"

text \<open>
  \<open>np.where(cond, x, y)\<close> on one row. The three successive assignments to
  \<open>Q4_stage\<close> start from a column of \<open>np.nan\<close>, which numpy turns into the text
  \<open>nan\<close> as soon as it is combined with a text label. The comparisons are signed.
  The function takes the years of a row whose year is not null.
\<close>

definition np_where :: "bool \<Rightarrow> 'a \<Rightarrow> 'a \<Rightarrow> 'a" where
  "np_where c x y = (if c then x else y)"

definition Q4_stage :: "int64 \<Rightarrow> string" where
  "Q4_stage years =
    (let s0 = ''nan'';
         s1 = np_where (sint years \<le> 10) ''Early'' s0;
         s2 = np_where (sint years > 10 \<and> sint years \<le> 25) ''Middle'' s1;
         s3 = np_where (sint years > 25) ''Senior'' s2
     in s3)"

subsection \<open>Panel and domain of a subject-area code (lines 183 to 289)\<close>

text \<open>
  Each of the three columns is built by 34 successive \<open>np.where\<close> assignments, one per
  code, over a column that starts as \<open>np.nan\<close>. The rule lists below are the
  (code, value) pairs of these assignments in source order, and \<open>recode\<close> runs them
  in that order on the code of one row.
\<close>

definition recode :: "'a \<Rightarrow> (int \<times> 'a) list \<Rightarrow> int \<Rightarrow> 'a" where
  "recode start rules uoa = foldl (\<lambda>acc (n, v). np_where (uoa = n) v acc) start rules"

definition panel_rules :: "(int \<times> string) list" where
  "panel_rules =
    [(1, ''A''), (2, ''A''), (3, ''A''), (4, ''A''), (5, ''A''), (6, ''A''),
     (7, ''B''), (8, ''B''), (9, ''B''), (10, ''B''), (11, ''B''), (12, ''B''),
     (13, ''C''), (14, ''C''), (15, ''C''), (16, ''C''), (17, ''C''), (18, ''C''),
     (19, ''C''), (20, ''C''), (21, ''C''), (22, ''C''), (23, ''C''), (24, ''C''),
     (25, ''D''), (26, ''D''), (27, ''D''), (28, ''D''), (29, ''D''), (30, ''D''),
     (31, ''D''), (32, ''D''), (33, ''D''), (34, ''D'')]"

definition stemshape_rules :: "(int \<times> string) list" where
  "stemshape_rules =
    [(1, ''STEM''), (2, ''STEM''), (3, ''STEM''), (4, ''SHAPE''), (5, ''STEM''),
     (6, ''STEM''), (7, ''STEM''), (8, ''STEM''), (9, ''STEM''), (10, ''STEM''),
     (11, ''STEM''), (12, ''STEM''), (13, ''SHAPE''), (14, ''SHAPE''), (15, ''SHAPE''),
     (16, ''SHAPE''), (17, ''SHAPE''), (18, ''SHAPE''), (19, ''SHAPE''), (20, ''SHAPE''),
     (21, ''SHAPE''), (22, ''SHAPE''), (23, ''SHAPE''), (24, ''SHAPE''), (25, ''SHAPE''),
     (26, ''SHAPE''), (27, ''SHAPE''), (28, ''SHAPE''), (29, ''SHAPE''), (30, ''SHAPE''),
     (31, ''SHAPE''), (32, ''SHAPE''), (33, ''SHAPE''), (34, ''SHAPE'')]"

text \<open>
  The binary column stays numeric: its start value \<open>np.nan\<close> is \<open>None\<close> and the
  values 1 and 0 of the source are \<open>Some 1\<close> and \<open>Some 0\<close>.
\<close>

definition stemshape_binary_rules :: "(int \<times> int option) list" where
  "stemshape_binary_rules =
    [(1, Some 1), (2, Some 1), (3, Some 1), (4, Some 0), (5, Some 1),
     (6, Some 1), (7, Some 1), (8, Some 1), (9, Some 1), (10, Some 1),
     (11, Some 1), (12, Some 1), (13, Some 0), (14, Some 0), (15, Some 0),
     (16, Some 0), (17, Some 0), (18, Some 0), (19, Some 0), (20, Some 0),
     (21, Some 0), (22, Some 0), (23, Some 0), (24, Some 0), (25, Some 0),
     (26, Some 0), (27, Some 0), (28, Some 0), (29, Some 0), (30, Some 0),
     (31, Some 0), (32, Some 0), (33, Some 0), (34, Some 0)]"

definition Q8_panel :: "int \<Rightarrow> string" where
  "Q8_panel uoa = recode ''nan'' panel_rules uoa"

definition Q8_stemshape :: "int \<Rightarrow> string" where
  "Q8_stemshape uoa = recode ''nan'' stemshape_rules uoa"

definition Q8_stemshape_binary :: "int \<Rightarrow> int option" where
  "Q8_stemshape_binary uoa = recode None stemshape_binary_rules uoa"

subsection \<open>Text helpers of Python\<close>

text \<open>
  Strings are byte strings. \<open>strip\<close> is \<open>str.strip()\<close> with the ASCII white
  space of Python; \<open>strip_chars\<close> is \<open>str.strip(chars)\<close>.
\<close>

definition whitespace :: "char list" where
  "whitespace = [CHR 0x09, CHR 0x0A, CHR 0x0B, CHR 0x0C, CHR 0x0D,
                 CHR 0x1C, CHR 0x1D, CHR 0x1E, CHR 0x1F, CHR 0x20]"

definition strip_chars :: "char list \<Rightarrow> string \<Rightarrow> string" where
  "strip_chars cs s =
     rev (dropWhile (\<lambda>c. c \<in> set cs) (rev (dropWhile (\<lambda>c. c \<in> set cs) s)))"

definition strip :: "string \<Rightarrow> string" where
  "strip s = strip_chars whitespace s"

definition is_digit :: "char \<Rightarrow> bool" where
  "is_digit c = (c \<in> set ''0123456789'')"

definition digit_val :: "char \<Rightarrow> int" where
  "digit_val c = int (length (takeWhile (\<lambda>d. d \<noteq> c) ''0123456789''))"

definition digit_char :: "nat \<Rightarrow> char" where
  "digit_char d = ''0123456789'' ! d"

text \<open>\<open>str(n)\<close> for an integer: its decimal text.\<close>

function str_nat :: "nat \<Rightarrow> string" where
  "str_nat n = (if n < 10 then [digit_char n] else str_nat (n div 10) @ [digit_char (n mod 10)])"
  by pat_completeness auto
termination
  by (relation "measure id") auto

declare str_nat.simps [simp del]

definition str_int :: "int \<Rightarrow> string" where
  "str_int i = (if i < 0 then CHR ''-'' # str_nat (nat (- i)) else str_nat (nat i))"

text \<open>
  \<open>int(s)\<close> for a text: white space around it is dropped, one sign is allowed, and the
  rest must be decimal digits, where single underscores may stand between digits. Any
  other text raises \<open>ValueError\<close>, here \<open>None\<close>.
\<close>

fun int_body :: "string \<Rightarrow> bool" where
  "int_body [] = False"
| "int_body [c] = is_digit c"
| "int_body (c # d # cs) =
     (is_digit c \<and> (if d = CHR ''_'' then int_body cs else int_body (d # cs)))"

definition int_value :: "string \<Rightarrow> int" where
  "int_value body = foldl (\<lambda>a c. 10 * a + digit_val c) 0 (filter is_digit body)"

definition py_int :: "string \<Rightarrow> int option" where
  "py_int s =
     (case strip s of
        [] \<Rightarrow> None
      | c # cs \<Rightarrow>
          if c = CHR ''-'' then (if int_body cs then Some (- int_value cs) else None)
          else if c = CHR ''+'' then (if int_body cs then Some (int_value cs) else None)
          else if int_body (c # cs) then Some (int_value (c # cs)) else None)"

subsection \<open>Tables\<close>

text \<open>
  A cell of a table read from a spreadsheet or a CSV file is missing (\<open>NaN\<close>), a text,
  or a number; integer and floating-point cells are both numbers, valued by the real
  number they denote. A row gives the cell of each column name, and a table has its
  column names in order and its rows in order. Tables in which two columns carry one
  name are outside the model: an operation that would produce one stops with
  \<open>DuplicateColumns\<close>.
\<close>

datatype cell = NaN | Str string | Num real

type_synonym row = "string \<Rightarrow> cell"

record frame =
  columns :: "string list"
  rows :: "row list"

fun sequence :: "(error + 'a) list \<Rightarrow> error + 'a list" where
  "sequence [] = Inr []"
| "sequence (x # xs) =
     (case x of
        Inl e \<Rightarrow> Inl e
      | Inr v \<Rightarrow> (case sequence xs of Inl e \<Rightarrow> Inl e | Inr vs \<Rightarrow> Inr (v # vs)))"

text \<open>\<open>df.rename(columns={old: new})\<close>.\<close>

definition rename_column :: "string \<Rightarrow> string \<Rightarrow> frame \<Rightarrow> frame" where
  "rename_column old new df =
     \<lparr>columns = map (\<lambda>c. if c = old then new else c) (columns df),
      rows = map (\<lambda>r. (r(old := NaN))(new := r old)) (rows df)\<rparr>"

text \<open>\<open>df[name] = values\<close>: the column is replaced, or added last when it is new.\<close>

definition set_column :: "string \<Rightarrow> cell list \<Rightarrow> frame \<Rightarrow> frame" where
  "set_column name vals df =
     \<lparr>columns = (if name \<in> set (columns df) then columns df else columns df @ [name]),
      rows = map2 (\<lambda>r v. r(name := v)) (rows df) vals\<rparr>"

text \<open>
  The cast of one cell to \<open>int\<close>: a number is truncated towards zero, a text is read
  by \<open>int\<close>, and a missing cell cannot be cast.
\<close>

definition trunc :: "real \<Rightarrow> int" where
  "trunc x = (if 0 \<le> x then \<lfloor>x\<rfloor> else \<lceil>x\<rceil>)"

fun cell_to_int :: "cell \<Rightarrow> error + int" where
  "cell_to_int NaN = Inl ValueError"
| "cell_to_int (Str s) = (case py_int s of None \<Rightarrow> Inl ValueError | Some i \<Rightarrow> Inr i)"
| "cell_to_int (Num x) = Inr (trunc x)"

definition astype_int :: "string \<Rightarrow> frame \<Rightarrow> error + int list" where
  "astype_int name df = sequence (map (\<lambda>r. cell_to_int (r name)) (rows df))"

subsection \<open>format\_ids (lines 13 to 36)\<close>

text \<open>
  \<open>fillna('').astype(str)\<close> on a cell of the letter column. How Python prints a
  number that is not known to be an integer is library code, taken as the parameter
  \<open>num_str\<close>.
\<close>

fun letter_text :: "(real \<Rightarrow> string) \<Rightarrow> cell \<Rightarrow> string" where
  "letter_text num_str NaN = []"
| "letter_text num_str (Str s) = s"
| "letter_text num_str (Num x) = num_str x"

definition with_inst_id :: "frame \<Rightarrow> frame" where
  "with_inst_id df =
    (let df1 = (if ''Institution UKPRN code'' \<in> set (columns df)
                then rename_column ''Institution UKPRN code'' ''inst_id'' df else df);
         df2 = (if ''Institution code (UKPRN)'' \<in> set (columns df1)
                then rename_column ''Institution code (UKPRN)'' ''inst_id'' df1 else df1)
     in df2)"

definition format_ids :: "(real \<Rightarrow> string) \<Rightarrow> frame \<Rightarrow> error + frame" where
  "format_ids num_str df =
    (let df2 = with_inst_id df
     in if \<not> distinct (columns df2) then Inl DuplicateColumns
        else if ''inst_id'' \<notin> set (columns df2) then Inl KeyError
        else
          (let df3 = df2\<lparr>rows := filter (\<lambda>r. r ''inst_id'' \<noteq> Str '' '') (rows df2)\<rparr>
           in case astype_int ''inst_id'' df3 of
                Inl e \<Rightarrow> Inl e
              | Inr ids \<Rightarrow>
                 (let df4 = set_column ''inst_id'' (map (\<lambda>i. Num (of_int i)) ids) df3
                  in if ''Unit of assessment number'' \<notin> set (columns df4) then Inl KeyError
                     else case astype_int ''Unit of assessment number'' df4 of
                        Inl e \<Rightarrow> Inl e
                      | Inr ns \<Rightarrow>
                          if ''Multiple submission letter'' \<notin> set (columns df4)
                          then Inl KeyError
                          else Inr (set_column ''uoa_id''
                                 (map2 (\<lambda>n r. Str (str_int n @
                                      letter_text num_str (r ''Multiple submission letter'')))
                                    ns (rows df4))
                                 df4))))"

text \<open>
  The name under which a table given to \<open>format_ids\<close> holds the institution id:
  one of the two spreadsheet headings, or \<open>inst_id\<close> itself.
\<close>

definition inst_id_column :: "frame \<Rightarrow> string" where
  "inst_id_column df =
     (if ''Institution UKPRN code'' \<in> set (columns df) then ''Institution UKPRN code''
      else if ''Institution code (UKPRN)'' \<in> set (columns df) then ''Institution code (UKPRN)''
      else ''inst_id'')"

definition not_blank_id :: "frame \<Rightarrow> row \<Rightarrow> bool" where
  "not_blank_id df r = (r (inst_id_column df) \<noteq> Str '' '')"

text \<open>A table of the shape of the evaluation results sheet, with one blank-id row.\<close>

definition results_example :: frame where
  "results_example =
     \<lparr>columns = [''Institution UKPRN code'', ''Unit of assessment number'',
                 ''Multiple submission letter''],
      rows = [(\<lambda>_. NaN)(''Institution UKPRN code'' := Num 10007783,
                          ''Unit of assessment number'' := Num 12,
                          ''Multiple submission letter'' := Str ''A''),
              (\<lambda>_. NaN)(''Institution UKPRN code'' := Str '' ''),
              (\<lambda>_. NaN)(''Institution UKPRN code'' := Str ''10007784'',
                          ''Unit of assessment number'' := Num 4)]\<rparr>"

subsection \<open>Multi-part questions (lines 69 to 76, 78 to 85, 116 to 123, 323 to 340)\<close>

text \<open>
  A cell of the survey table is a text label or null (\<open>None\<close>). \<open>astype(str)\<close>
  turns a null into the text \<open>nan\<close>, and \<open>replace('nan', '')\<close> replaces a cell that
  is exactly that text.
\<close>

definition astype_str :: "string option \<Rightarrow> string" where
  "astype_str v = (case v of None \<Rightarrow> ''nan'' | Some s \<Rightarrow> s)"

definition replace_value :: "string \<Rightarrow> string \<Rightarrow> string \<Rightarrow> string" where
  "replace_value old new s = (if s = old then new else s)"

text \<open>
  \<open>str.replace(r':.*', '', regex=True)\<close>: every match of a colon and what follows it
  up to the end of the line is deleted (the dot of a regular expression does not match
  a line feed). The flag says whether the scan is inside a match.
\<close>

fun cut_colon_from :: "bool \<Rightarrow> string \<Rightarrow> string" where
  "cut_colon_from inside [] = []"
| "cut_colon_from inside (c # cs) =
     (if c = CHR 0x0A then c # cut_colon_from False cs
      else if inside then cut_colon_from True cs
      else if c = CHR '':'' then cut_colon_from True cs
      else c # cut_colon_from False cs)"

definition cut_colon :: "string \<Rightarrow> string" where
  "cut_colon s = cut_colon_from False s"

text \<open>\<open>str.replace(':+', ':', regex=True)\<close>: a run of colons becomes one colon.\<close>

fun squeeze_colons :: "string \<Rightarrow> string" where
  "squeeze_colons [] = []"
| "squeeze_colons [c] = [c]"
| "squeeze_colons (c # d # cs) =
     (if c = CHR '':'' \<and> d = CHR '':'' then squeeze_colons (d # cs)
      else c # squeeze_colons (d # cs))"

text \<open>The body of the loop for one sub-column, and the loop with the two final steps.\<close>

definition sub_column_text :: "string option \<Rightarrow> string" where
  "sub_column_text v = cut_colon (strip (replace_value ''nan'' [] (astype_str v)))"

definition collapse_multipart :: "string option list \<Rightarrow> string" where
  "collapse_multipart subs =
     strip_chars '':'' (squeeze_colons
       (foldl (\<lambda>acc v. acc @ sub_column_text v @ '':'') [] subs))"

text \<open>
  The loop over \<open>range(1, n)\<close> on the sub-columns \<open>name_1\<close>, \<open>name_2\<close>, ... of
  one row, and the five questions collapsed this way.
\<close>

definition multipart :: "string \<Rightarrow> nat \<Rightarrow> (string \<Rightarrow> string option) \<Rightarrow> string" where
  "multipart name n r = collapse_multipart (map (\<lambda>q. r (name @ ''_'' @ str_nat q)) [1..<n])"


definition clean_Q2 :: "(string \<Rightarrow> string option) \<Rightarrow> string" where
  "clean_Q2 r = multipart ''Q3_b'' 13 r"

definition clean_Q7 :: "(string \<Rightarrow> string option) \<Rightarrow> string" where
  "clean_Q7 r = multipart ''Q7'' 36 r"

definition clean_12a :: "(string \<Rightarrow> string option) \<Rightarrow> string" where
  "clean_12a r = multipart ''Q14'' 24 r"

definition clean_12b :: "(string \<Rightarrow> string option) \<Rightarrow> string" where
  "clean_12b r = multipart ''Q15'' 24 r"


subsection \<open>Ranked items (lines 312 to 321, 357 to 394)\<close>

text \<open>\<open>bfill(axis=1).iloc[:, 0]\<close>: the first sub-column that is not null.\<close>

fun bfill_first :: "string option list \<Rightarrow> string option" where
  "bfill_first [] = None"
| "bfill_first (None # vs) = bfill_first vs"
| "bfill_first (Some s # vs) = Some s"

text \<open>
  \<open>str.replace(old, new)\<close> without \<open>regex=True\<close> is the replacement of every
  occurrence of the literal text, scanning from the left.
\<close>

function str_replace :: "string \<Rightarrow> string \<Rightarrow> string \<Rightarrow> string" where
  "str_replace old new [] = (if old = [] then new else [])"
| "str_replace old new (c # cs) =
     (if old = [] then new @ c # str_replace old new cs
      else if take (length old) (c # cs) = old
           then new @ str_replace old new (drop (length old) (c # cs))
      else c # str_replace old new cs)"
  by pat_completeness auto
termination
  by (relation "measure (\<lambda>(old, new, s). length s)") auto

text \<open>
  \<open>astype('Int64')\<close> on one cell: a null stays null and a text is read by \<open>int\<close>.
  The integers of the model are unbounded; the scale values are single digits.
\<close>

definition astype_Int64 :: "string option \<Rightarrow> error + int option" where
  "astype_Int64 v =
     (case v of
        None \<Rightarrow> Inr None
      | Some s \<Rightarrow> (case py_int s of None \<Rightarrow> Inl ValueError | Some i \<Rightarrow> Inr (Some i)))"

definition likert :: "string \<Rightarrow> string \<Rightarrow> string \<Rightarrow> string option list \<Rightarrow> error + int option" where
  "likert high low middle subs =
     (let v0 = bfill_first subs;
          v1 = map_option (str_replace high ''3'') v0;
          v2 = map_option (str_replace low ''-3'') v1;
          v3 = map_option (str_replace middle ''0'') v2
      in astype_Int64 v3)"

definition Q12_item :: "string option list \<Rightarrow> error + int option" where
  "Q12_item subs =
     likert ''(3) extremely possible'' ''(-3) not at all possible'' ''(0) neither'' subs"

definition Q17_item :: "string option list \<Rightarrow> error + int option" where
  "Q17_item subs =
     likert ''(3) extremely important'' ''(-3) not at all important''
       ''(0) modest importance'' subs"

definition Q18_item :: "string option list \<Rightarrow> error + int option" where
  "Q18_item subs =
     likert ''(3) extremely important'' ''(-3) not at all important''
       ''(0) modestly important'' subs"

definition Q18a_item :: "string option list \<Rightarrow> error + int option" where
  "Q18a_item subs =
     likert ''(3) extremely able'' ''(-3) not at all able'' ''(0) modestly able'' subs"

text \<open>Item \<open>q\<close> of question 12 on one row: its seven sub-columns in order.\<close>

definition clean_Q12 :: "nat \<Rightarrow> (string \<Rightarrow> string option) \<Rightarrow> error + int option" where
  "clean_Q12 q r =
     Q12_item (map (\<lambda>k. r (''Q13_'' @ str_nat q @ ''_'' @ str_nat k)) [1..<8])"

subsection \<open>Grade point averages (lines 449 to 464)\<close>

text \<open>
  \<open>pd.to_numeric(column, errors='coerce')\<close> on one cell: a number stays, a missing cell
  is \<open>NaN\<close>, and a text is parsed as a number if it can be and is \<open>NaN\<close> otherwise.
  The parser of pandas is library code, taken as the parameter \<open>parse\<close>. The result
  is a floating-point number; the model values it as a real number and \<open>NaN\<close> as
  \<open>None\<close>, so rounding is not modelled. Arithmetic with \<open>NaN\<close> gives \<open>NaN\<close>.
\<close>

definition to_numeric :: "(string \<Rightarrow> real option) \<Rightarrow> cell \<Rightarrow> real option" where
  "to_numeric parse v = (case v of NaN \<Rightarrow> None | Str s \<Rightarrow> parse s | Num x \<Rightarrow> Some x)"

definition times_const :: "real option \<Rightarrow> real \<Rightarrow> real option" where
  "times_const a k = map_option (\<lambda>x. x * k) a"

definition plus_nan :: "real option \<Rightarrow> real option \<Rightarrow> real option" where
  "plus_nan a b = (case a of None \<Rightarrow> None | Some x \<Rightarrow> map_option (\<lambda>y. x + y) b)"

definition div_const :: "real option \<Rightarrow> real \<Rightarrow> real option" where
  "div_const a k = map_option (\<lambda>x. x / k) a"

definition ICS_GPA :: "(string \<Rightarrow> real option) \<Rightarrow> row \<Rightarrow> real option" where
  "ICS_GPA parse r =
     div_const
       (plus_nan
         (plus_nan
           (plus_nan (times_const (to_numeric parse (r ''4*_Impact'')) 4)
                     (times_const (to_numeric parse (r ''3*_Impact'')) 3))
           (times_const (to_numeric parse (r ''2*_Impact'')) 2))
         (to_numeric parse (r ''1*_Impact'')))
       100"

definition Environment_GPA :: "(string \<Rightarrow> real option) \<Rightarrow> row \<Rightarrow> real option" where
  "Environment_GPA parse r =
     div_const
       (plus_nan
         (plus_nan
           (plus_nan (times_const (to_numeric parse (r ''4*_Environment'')) 4)
                     (times_const (to_numeric parse (r ''3*_Environment'')) 3))
           (times_const (to_numeric parse (r ''2*_Environment'')) 2))
         (to_numeric parse (r ''1*_Environment'')))
       100"

definition Output_GPA :: "(string \<Rightarrow> real option) \<Rightarrow> row \<Rightarrow> real option" where
  "Output_GPA parse r =
     div_const
       (plus_nan
         (plus_nan
           (plus_nan (times_const (to_numeric parse (r ''4*_Outputs'')) 4)
                     (times_const (to_numeric parse (r ''3*_Outputs'')) 3))
           (times_const (to_numeric parse (r ''2*_Outputs'')) 2))
         (to_numeric parse (r ''1*_Outputs'')))
       100"

definition Overall_GPA :: "(string \<Rightarrow> real option) \<Rightarrow> row \<Rightarrow> real option" where
  "Overall_GPA parse r =
     div_const
       (plus_nan
         (plus_nan
           (plus_nan (times_const (to_numeric parse (r ''4*_Overall'')) 4)
                     (times_const (to_numeric parse (r ''3*_Overall'')) 3))
           (times_const (to_numeric parse (r ''2*_Overall'')) 2))
         (to_numeric parse (r ''1*_Overall'')))
       100"

text \<open>
  The formula as the specification words it, for comparison: the weighted sum of the four
  score-band percentages over 100, and null as soon as one of them is not a number.
\<close>

definition gpa_spec ::
  "real option \<Rightarrow> real option \<Rightarrow> real option \<Rightarrow> real option \<Rightarrow> real option" where
  "gpa_spec p4 p3 p2 p1 =
     (case (p4, p3, p2, p1) of
        (Some a, Some b, Some c, Some d) \<Rightarrow> Some ((4 * a + 3 * b + 2 * c + 1 * d) / 100)
      | _ \<Rightarrow> None)"

text \<open>A department row with the score bands 20, 50, 20, 10, 0 in each profile.\<close>

definition score_row_example :: row where
  "score_row_example =
     (\<lambda>_. NaN)(''4*_Impact'' := Num 20, ''3*_Impact'' := Num 50, ''2*_Impact'' := Num 20,
                ''1*_Impact'' := Num 10, ''Unclassified_Impact'' := Num 0,
                ''4*_Environment'' := Num 20, ''3*_Environment'' := Num 50,
                ''2*_Environment'' := Num 20, ''1*_Environment'' := Num 10,
                ''Unclassified_Environment'' := Num 0,
                ''4*_Outputs'' := Num 20, ''3*_Outputs'' := Num 50, ''2*_Outputs'' := Num 20,
                ''1*_Outputs'' := Num 10, ''Unclassified_Outputs'' := Num 0,
                ''4*_Overall'' := Num 20, ''3*_Overall'' := Num 50, ''2*_Overall'' := Num 20,
                ''1*_Overall'' := Num 10, ''Unclassified_Overall'' := Num 0)"

subsection \<open>Left joins\<close>

text \<open>
  \<open>pd.merge(left, right, how='left', left_on=..., right_on=...)\<close>. Every row of the
  left table, in order, is paired with each row of the right table that has the same
  key cells, in the order of the right table, or with nothing when there is none; a
  missing key cell matches a missing key cell, as in pandas. A key column with the same
  name on both sides appears once. A column name that is otherwise on both sides gets
  the suffix \<open>_x\<close> on the left and \<open>_y\<close> on the right. The check pandas makes on
  the types of the key columns is not modelled.
\<close>

definition shared_keys :: "string list \<Rightarrow> string list \<Rightarrow> string list" where
  "shared_keys left_on right_on =
     map fst (filter (\<lambda>(lk, rk). lk = rk) (zip left_on right_on))"

definition kept_right :: "string list \<Rightarrow> string list \<Rightarrow> frame \<Rightarrow> string list" where
  "kept_right left_on right_on right =
     filter (\<lambda>c. c \<notin> set (shared_keys left_on right_on)) (columns right)"

definition suffixed :: "string list \<Rightarrow> string \<Rightarrow> string \<Rightarrow> string" where
  "suffixed overlap suffix c = (if c \<in> set overlap then c @ suffix else c)"

definition matches :: "string list \<Rightarrow> string list \<Rightarrow> row \<Rightarrow> frame \<Rightarrow> row option list" where
  "matches left_on right_on l right =
     (case filter (\<lambda>r. map r right_on = map l left_on) (rows right) of
        [] \<Rightarrow> [None]
      | m # ms \<Rightarrow> map Some (m # ms))"

definition join_row :: "string list \<Rightarrow> string list \<Rightarrow> string list \<Rightarrow> row \<Rightarrow> row option \<Rightarrow> row" where
  "join_row lcols rcols overlap l ro =
     (\<lambda>n. case map_of
              (map (\<lambda>c. (suffixed overlap ''_x'' c, l c)) lcols @
               map (\<lambda>c. (suffixed overlap ''_y'' c,
                          case ro of None \<Rightarrow> NaN | Some r \<Rightarrow> r c)) rcols) n of
            None \<Rightarrow> NaN
          | Some v \<Rightarrow> v)"

definition merge_left :: "string list \<Rightarrow> string list \<Rightarrow> frame \<Rightarrow> frame \<Rightarrow> error + frame" where
  "merge_left left_on right_on left right =
    (if length left_on \<noteq> length right_on then Inl ValueError
     else if \<not> list_all (\<lambda>k. k \<in> set (columns left)) left_on \<or>
             \<not> list_all (\<lambda>k. k \<in> set (columns right)) right_on then Inl KeyError
     else
      (let rcols = kept_right left_on right_on right;
           overlap = filter (\<lambda>c. c \<in> set rcols) (columns left);
           names = map (suffixed overlap ''_x'') (columns left) @
                   map (suffixed overlap ''_y'') rcols
       in if \<not> distinct names then Inl DuplicateColumns
          else Inr \<lparr>columns = names,
                    rows = concat (map
                      (\<lambda>l. map (join_row (columns left) rcols overlap l)
                               (matches left_on right_on l right))
                      (rows left))\<rparr>))"

subsection \<open>merge\_ins\_uoa (lines 39 to 56)\<close>

text \<open>\<open>series.isin(other)\<close> on one value; a missing value is in a column that has one.\<close>

definition isin :: "cell \<Rightarrow> cell list \<Rightarrow> bool" where
  "isin v vs = (v \<in> set vs)"

definition column_values :: "string \<Rightarrow> frame \<Rightarrow> cell list" where
  "column_values name df = map (\<lambda>r. r name) (rows df)"

definition merge_ins_uoa :: "frame \<Rightarrow> frame \<Rightarrow> string \<Rightarrow> string \<Rightarrow> error + frame" where
  "merge_ins_uoa df1 df2 id1 id2 =
    (if id1 \<notin> set (columns df1) \<or> id1 \<notin> set (columns df2) then Inl KeyError
     else if \<not> list_all (\<lambda>v. isin v (column_values id1 df2)) (column_values id1 df1)
          then Inl AssertionError
     else if id2 \<notin> set (columns df1) \<or> id2 \<notin> set (columns df2) then Inl KeyError
     else if \<not> list_all (\<lambda>v. isin v (column_values id2 df2)) (column_values id2 df1)
          then Inl AssertionError
     else merge_left [id1, id2] [id1, id2] df1 df2)"

subsection \<open>The final merge of build\_dataset (lines 465 to 494)\<close>

text \<open>
  \<open>str.extract(r'([-]?\d+)')\<close>: the first run of digits of a text, with a minus sign
  right before it if there is one; then \<open>pd.to_numeric\<close> and the cast to \<open>Int64\<close>.
  A cell that is not a text, or a text without a digit, gives a missing cell.
\<close>

fun extract_digits :: "string \<Rightarrow> string option" where
  "extract_digits [] = None"
| "extract_digits (c # cs) =
     (if c = CHR ''-'' \<and> cs \<noteq> [] \<and> is_digit (hd cs) then Some (c # takeWhile is_digit cs)
      else if is_digit c then Some (takeWhile is_digit (c # cs))
      else extract_digits cs)"

definition uoa_id_number :: "cell \<Rightarrow> cell" where
  "uoa_id_number v =
     (case v of
        Str s \<Rightarrow>
          (case extract_digits s of
             None \<Rightarrow> NaN
           | Some t \<Rightarrow> (case py_int t of None \<Rightarrow> NaN | Some i \<Rightarrow> Num (of_int i)))
      | _ \<Rightarrow> NaN)"

text \<open>
  The department table gets its \<open>uoa_id\<close> replaced by the number in it, the survey
  table is joined to it on institution name and subject-area code, then to the two lookup
  tables, and the two institution-type flags are overwritten where the column \<open>Q1\<close>
  is \<open>Other\<close>. The audit file written in between (lines 471 to 488) reads the column
  \<open>ICS_GPA\<close> of the first join and changes nothing.
\<close>

definition flag_or_zero :: "string \<Rightarrow> row \<Rightarrow> cell" where
  "flag_or_zero name r = np_where (r ''Q1'' = Str ''Other'') (Num 0) (r name)"

definition final_merge :: "frame \<Rightarrow> frame \<Rightarrow> frame \<Rightarrow> frame \<Rightarrow> error + frame" where
  "final_merge df_clean raw_dep classification df_manual =
    (if ''uoa_id'' \<notin> set (columns raw_dep) then Inl KeyError
     else
      (let raw_dep1 = set_column ''uoa_id''
                        (map (\<lambda>r. uoa_id_number (r ''uoa_id'')) (rows raw_dep)) raw_dep
       in case merge_left [''Q3'', ''Q8_uoa''] [''Institution name'', ''uoa_id'']
                 df_clean raw_dep1 of
            Inl e \<Rightarrow> Inl e
          | Inr m1 \<Rightarrow>
              if ''ICS_GPA'' \<notin> set (columns m1) then Inl KeyError
              else
               (case merge_left [''PIPD''] [''Q28''] m1 classification of
                  Inl e \<Rightarrow> Inl e
                | Inr m2 \<Rightarrow>
                   (case merge_left [''Q3''] [''Q3''] m2 df_manual of
                      Inl e \<Rightarrow> Inl e
                    | Inr m3 \<Rightarrow>
                        if ''Q1'' \<notin> set (columns m3) then Inl KeyError
                        else if ''is_oxbridge'' \<notin> set (columns m3) then Inl KeyError
                        else
                         (let m4 = set_column ''is_oxbridge''
                                     (map (flag_or_zero ''is_oxbridge'') (rows m3)) m3
                          in if ''is_redbrick'' \<notin> set (columns m4) then Inl KeyError
                             else Inr (set_column ''is_redbrick''
                                        (map (flag_or_zero ''is_redbrick'') (rows m4)) m4))))))"

subsection \<open>Example tables\<close>

definition table :: "string list \<Rightarrow> cell list list \<Rightarrow> frame" where
  "table names cells =
     \<lparr>columns = names,
      rows = map (\<lambda>cs n. case map_of (zip names cs) n of None \<Rightarrow> NaN | Some v \<Rightarrow> v) cells\<rparr>"

text \<open>Two department-level tables whose key columns agree column by column only.\<close>

definition staff_example :: frame where
  "staff_example = table [''inst_id'', ''uoa_id'', ''fte'']
     [[Num 1, Str ''12'', Num 10]]"

definition income_example :: frame where
  "income_example = table [''inst_id'', ''uoa_id'', ''tot_income'']
     [[Num 1, Str ''4'', Num 300], [Num 2, Str ''12'', Num 250]]"

text \<open>A right table that holds one key pair twice, and one that holds it once.\<close>

definition income_twice_example :: frame where
  "income_twice_example = table [''inst_id'', ''uoa_id'', ''tot_income'']
     [[Num 1, Str ''12'', Num 300], [Num 1, Str ''12'', Num 250]]"

definition income_once_example :: frame where
  "income_once_example = table [''inst_id'', ''uoa_id'', ''tot_income'']
     [[Num 1, Str ''12'', Num 300], [Num 2, Str ''12'', Num 250]]"


definition respondents_example :: frame where
  "respondents_example = table [''Q1'', ''Q3'', ''Q8_uoa'', ''PIPD'']
     [[Str ''Academic'', Str ''University of Oxford'', Num 12, Num 1],
      [Str ''Academic'', Str ''Other'', Num 12, Num 7]]"


definition one_submission_example :: frame where
  "one_submission_example = table [''Institution name'', ''uoa_id'', ''ICS_GPA'']
     [[Str ''University of Oxford'', Str ''12'', Num 3.5]]"

definition classification_example :: frame where
  "classification_example = table [''Q28'', ''category'']
     [[Num 1, Str ''Public engagement'']]"

definition manual_example :: frame where
  "manual_example = table [''Q3'', ''is_oxbridge'', ''is_redbrick'']
     [[Str ''University of Oxford'', Num 1, Num 0]]"

text \<open>The cells of a result, row by row in the order of its columns.\<close>

definition cells :: "error + frame \<Rightarrow> error + cell list list" where
  "cells res =
     (case res of
        Inl e \<Rightarrow> Inl e
      | Inr df \<Rightarrow> Inr (map (\<lambda>r. map r (columns df)) (rows df)))"

subsection \<open>Notions used to state the properties of the final merge\<close>



















section \<open>Properties\<close>

lemma upto_1_34:
  "[1..34::int] = [1, 2, 3, 4, 5, 6, 7, 8, 9, 10, 11, 12, 13, 14, 15, 16, 17, 18, 19, 20,
     21, 22, 23, 24, 25, 26, 27, 28, 29, 30, 31, 32, 33, 34]"
  by code_simp

lemma all_codes:
  "(\<forall>n\<in>set [1..34]. P (n::int)) \<Longrightarrow> 1 \<le> n \<Longrightarrow> n \<le> 34 \<Longrightarrow> P n"
  by simp

lemma panel_codes:
  "\<forall>n\<in>set [1..34]. Q8_panel n \<in> {''A'', ''B'', ''C'', ''D''}"
  unfolding upto_1_34
  by (simp add: Q8_panel_def recode_def panel_rules_def np_where_def)

lemma stemshape_codes:
  "\<forall>n\<in>set [1..34]. Q8_stemshape n \<in> {''STEM'', ''SHAPE''}"
  unfolding upto_1_34
  by (simp add: Q8_stemshape_def recode_def stemshape_rules_def np_where_def)

lemma binary_codes:
  "\<forall>n\<in>set [1..34]. Q8_stemshape_binary n \<in> {Some 0, Some 1} \<and>
     (Q8_stemshape_binary n = Some 1) = (Q8_stemshape n = ''STEM'')"
  unfolding upto_1_34
  by (simp add: Q8_stemshape_def Q8_stemshape_binary_def recode_def stemshape_rules_def
      stemshape_binary_rules_def np_where_def)

lemma boundary_codes:
  "Q8_panel 1 = ''A'' \<and> Q8_stemshape 1 = ''STEM'' \<and> Q8_stemshape_binary 1 = Some 1 \<and>
   Q8_panel 34 = ''D'' \<and> Q8_stemshape 34 = ''SHAPE'' \<and> Q8_stemshape_binary 34 = Some 0 \<and>
   Q8_panel 4 = ''A'' \<and> Q8_stemshape 4 = ''SHAPE'' \<and> Q8_stemshape_binary 4 = Some 0"
  by (simp add: Q8_panel_def Q8_stemshape_def Q8_stemshape_binary_def recode_def panel_rules_def
      stemshape_rules_def stemshape_binary_rules_def np_where_def)

text \<open>
  C5. For every subject-area code from 1 to 34 a row with that code gets one panel letter
  among A, B, C, D, one domain label among STEM and SHAPE, and a binary flag that is 0 or 1
  and is 1 exactly when the label is STEM; code 1 is panel A and STEM, code 34 is panel D
  and SHAPE, code 4 is panel A and SHAPE.
\<close>

theorem subject_area_lookups_total_consistent:
  assumes "1 \<le> n" and "n \<le> 34"
  shows "Q8_panel n \<in> {''A'', ''B'', ''C'', ''D''} \<and>
         Q8_stemshape n \<in> {''STEM'', ''SHAPE''} \<and>
         Q8_stemshape_binary n \<in> {Some 0, Some 1} \<and>
         (Q8_stemshape_binary n = Some 1) = (Q8_stemshape n = ''STEM'') \<and>
         Q8_panel 1 = ''A'' \<and> Q8_stemshape 1 = ''STEM'' \<and> Q8_stemshape_binary 1 = Some 1 \<and>
         Q8_panel 34 = ''D'' \<and> Q8_stemshape 34 = ''SHAPE'' \<and> Q8_stemshape_binary 34 = Some 0 \<and>
         Q8_panel 4 = ''A'' \<and> Q8_stemshape 4 = ''SHAPE'' \<and> Q8_stemshape_binary 4 = Some 0"
proof -
  have p: "Q8_panel n \<in> {''A'', ''B'', ''C'', ''D''}"
    using all_codes [OF panel_codes assms] .
  have s: "Q8_stemshape n \<in> {''STEM'', ''SHAPE''}"
    using all_codes [OF stemshape_codes assms] .
  have b: "Q8_stemshape_binary n \<in> {Some 0, Some 1} \<and>
     (Q8_stemshape_binary n = Some 1) = (Q8_stemshape n = ''STEM'')"
    using all_codes [OF binary_codes assms] .
  from p s b boundary_codes show ?thesis by blast
qed

theorem subject_area_lookups_witness:
  "(1::int) \<le> 12 \<and> (12::int) \<le> 34 \<and> Q8_panel 12 = ''B'' \<and> Q8_stemshape 12 = ''STEM'' \<and>
   Q8_stemshape_binary 12 = Some 1"
proof -
  have h1: "(1::int) \<le> 12" and h2: "(12::int) \<le> 34" by simp_all
  have v: "Q8_panel 12 = ''B'' \<and> Q8_stemshape 12 = ''STEM''"
    by (simp add: Q8_panel_def Q8_stemshape_def recode_def panel_rules_def
        stemshape_rules_def np_where_def)
  from subject_area_lookups_total_consistent [OF h1 h2] v h1 h2 show ?thesis by simp
qed

lemma Q4_years_no_overflow:
  assumes "- (2 ^ 63) + 2022 \<le> sint (y :: int64)"
  shows "Q4_years (Some y) = Some (2021 - y) \<and> sint (2021 - y) = 2021 - sint y"
proof -
  have u: "sint y < 2 ^ 63" using sint_lt [of y] by simp
  have "sint (2021 - y) = signed_take_bit 63 (2021 - sint y)"
    by (simp add: sint_word_ariths)
  also have "\<dots> = 2021 - sint y"
    using assms u by (intro signed_take_bit_int_eq_self) simp_all
  finally show ?thesis by (simp add: Q4_years_def)
qed

text \<open>
  C10. For a respondent whose PhD year \<open>y\<close> is not null, \<open>Q4_years\<close> is
  \<open>2021 - y\<close>, and the stage computed from these years is one of the three labels:
  Early exactly when the years are at most 10, Middle exactly when they are above 10 and
  at most 25, Senior exactly when they are above 25.
\<close>

theorem career_stage_by_years:
  fixes y :: int64
  shows "Q4_years (Some y) = Some (2021 - y) \<and>
         Q4_stage (2021 - y) \<in> {''Early'', ''Middle'', ''Senior''} \<and>
         (Q4_stage (2021 - y) = ''Early'') = (sint (2021 - y) \<le> 10) \<and>
         (Q4_stage (2021 - y) = ''Middle'') = (10 < sint (2021 - y) \<and> sint (2021 - y) \<le> 25) \<and>
         (Q4_stage (2021 - y) = ''Senior'') = (25 < sint (2021 - y))"
  by (simp add: Q4_years_def Q4_stage_def np_where_def Let_def)

lemma sequence_Inr:
  "sequence xs = Inr vs \<Longrightarrow> list_all2 (\<lambda>x v. x = Inr v) xs vs"
  by (induction xs arbitrary: vs) (auto split: sum.splits)

lemma astype_int_Inr:
  "astype_int name df = Inr ids \<Longrightarrow> list_all2 (\<lambda>r i. cell_to_int (r name) = Inr i) (rows df) ids"
  unfolding astype_int_def by (drule sequence_Inr) (simp add: list_all2_map1)

lemma in_set_dropWhile: "x \<in> set s \<Longrightarrow> \<not> P x \<Longrightarrow> x \<in> set (dropWhile P s)"
  by (induction s) auto

lemma strip_chars_nonempty: "x \<in> set s \<Longrightarrow> x \<notin> set cs \<Longrightarrow> strip_chars cs s \<noteq> []"
proof -
  assume a: "x \<in> set s" "x \<notin> set cs"
  have "x \<in> set (dropWhile (\<lambda>c. c \<in> set cs) s)" using a by (intro in_set_dropWhile) auto
  then have "x \<in> set (rev (dropWhile (\<lambda>c. c \<in> set cs) s))" by simp
  then have "x \<in> set (dropWhile (\<lambda>c. c \<in> set cs) (rev (dropWhile (\<lambda>c. c \<in> set cs) s)))"
    using a by (intro in_set_dropWhile) auto
  then have "dropWhile (\<lambda>c. c \<in> set cs) (rev (dropWhile (\<lambda>c. c \<in> set cs) s)) \<noteq> []"
    by (metis empty_iff empty_set)
  then show ?thesis unfolding strip_chars_def by (simp only: rev_is_Nil_conv not_False_eq_True)
qed

lemma digit_char_is_digit: "d < 10 \<Longrightarrow> is_digit (digit_char d)"
proof -
  assume "d < 10"
  then have "d = 0 \<or> d = 1 \<or> d = 2 \<or> d = 3 \<or> d = 4 \<or> d = 5 \<or> d = 6 \<or> d = 7 \<or> d = 8 \<or> d = 9"
    by arith
  then show ?thesis
    by (elim disjE) (simp_all add: is_digit_def digit_char_def)
qed

lemma str_nat_digits: "str_nat n \<noteq> [] \<and> (\<forall>c\<in>set (str_nat n). is_digit c)"
proof (induction n rule: str_nat.induct)
  case (1 n)
  show ?case
  proof (cases "n < 10")
    case True
    then show ?thesis by (simp add: str_nat.simps [of n] digit_char_is_digit)
  next
    case False
    with 1 show ?thesis by (simp add: str_nat.simps [of n] digit_char_is_digit)
  qed
qed

lemma str_int_not_blank: "strip (str_int n @ t) \<noteq> []"
proof -
  obtain c where c: "c \<in> set (str_int n)" "is_digit c"
    using str_nat_digits unfolding str_int_def
    by (metis last_in_set list.set_intros(2))
  have "c \<notin> set whitespace" using c(2) unfolding is_digit_def whitespace_def by auto
  then show ?thesis unfolding strip_def using c(1) by (intro strip_chars_nonempty [of c]) auto
qed


lemma with_inst_id_shape:
  "\<exists>\<rho> cs. (\<forall>xs. with_inst_id (df\<lparr>rows := xs\<rparr>) = \<lparr>columns = cs, rows = map \<rho> xs\<rparr>) \<and>
     (distinct cs \<longrightarrow> (\<forall>r. \<rho> r ''inst_id'' = r (inst_id_column df) \<and>
        \<rho> r ''Unit of assessment number'' = r ''Unit of assessment number'' \<and>
        \<rho> r ''Multiple submission letter'' = r ''Multiple submission letter''))"
proof (cases "''Institution UKPRN code'' \<in> set (columns df)")
  case v1: True
  show ?thesis
  proof (cases "''Institution code (UKPRN)'' \<in> set (columns df)")
    case v2: True
    let ?f = "\<lambda>c. if c = ''Institution code (UKPRN)'' then ''inst_id'' else c"
    let ?g = "\<lambda>c. if c = ''Institution UKPRN code'' then ''inst_id'' else c"
    have nd: "\<not> distinct (map (?f \<circ> ?g) (columns df))"
    proof
      assume "distinct (map (?f \<circ> ?g) (columns df))"
      then have "inj_on (?f \<circ> ?g) (set (columns df))" by (simp only: distinct_map)
      from inj_onD [OF this _ v1 v2] show False by simp
    qed
    show ?thesis
      apply (rule exI [of _ "\<lambda>r. ((r(''Institution UKPRN code'' := NaN, ''inst_id'' := r ''Institution UKPRN code''))
            (''Institution code (UKPRN)'' := NaN, ''inst_id'' := r ''Institution code (UKPRN)''))"])
      apply (rule exI [of _ "map (?f \<circ> ?g) (columns df)"])
      using v1 v2 nd by (simp add: with_inst_id_def rename_column_def o_def)
  next
    case v2: False
    show ?thesis
      apply (rule exI [of _ "\<lambda>r. r(''Institution UKPRN code'' := NaN, ''inst_id'' := r ''Institution UKPRN code'')"])
      apply (rule exI [of _ "map (\<lambda>c. if c = ''Institution UKPRN code'' then ''inst_id'' else c) (columns df)"])
      using v1 v2 by (auto simp add: with_inst_id_def rename_column_def inst_id_column_def)
  qed
next
  case v1: False
  show ?thesis
  proof (cases "''Institution code (UKPRN)'' \<in> set (columns df)")
    case v2: True
    show ?thesis
      apply (rule exI [of _ "\<lambda>r. r(''Institution code (UKPRN)'' := NaN, ''inst_id'' := r ''Institution code (UKPRN)'')"])
      apply (rule exI [of _ "map (\<lambda>c. if c = ''Institution code (UKPRN)'' then ''inst_id'' else c) (columns df)"])
      using v1 v2 by (auto simp add: with_inst_id_def rename_column_def inst_id_column_def)
  next
    case v2: False
    show ?thesis
      apply (rule exI [of _ "\<lambda>r. r"])
      apply (rule exI [of _ "columns df"])
      using v1 v2 by (auto simp add: with_inst_id_def inst_id_column_def)
  qed
qed


lemma format_ids_rows:
  assumes ok: "format_ids num_str df = Inr out"
  shows "list_all2 (\<lambda>r r'. \<exists>k n. cell_to_int (r (inst_id_column df)) = Inr k \<and>
            r' ''inst_id'' = Num (of_int k) \<and>
            cell_to_int (r ''Unit of assessment number'') = Inr n \<and>
            r' ''uoa_id'' = Str (str_int n @ letter_text num_str (r ''Multiple submission letter'')))
          (filter (not_blank_id df) (rows df)) (rows out)"
proof -
  obtain \<rho> cs where sh: "\<And>xs. with_inst_id (df\<lparr>rows := xs\<rparr>) = \<lparr>columns = cs, rows = map \<rho> xs\<rparr>"
    and pr: "distinct cs \<Longrightarrow> \<rho> r ''inst_id'' = r (inst_id_column df) \<and>
        \<rho> r ''Unit of assessment number'' = r ''Unit of assessment number'' \<and>
        \<rho> r ''Multiple submission letter'' = r ''Multiple submission letter''" for r
    using with_inst_id_shape [of df] by blast
  have w: "with_inst_id df = \<lparr>columns = cs, rows = map \<rho> (rows df)\<rparr>"
    using sh [of "rows df"] by simp
  let ?xs = "filter (not_blank_id df) (rows df)"
  let ?ys = "filter (\<lambda>r. r ''inst_id'' \<noteq> Str '' '') (map \<rho> (rows df))"
  let ?df3 = "\<lparr>columns = cs, rows = ?ys\<rparr>"
  from ok have d: "distinct cs" and i: "''inst_id'' \<in> set cs"
    by (auto simp: format_ids_def w Let_def split: if_splits)
  have ys: "?ys = map \<rho> ?xs"
    using pr [OF d] by (simp add: filter_map o_def not_blank_id_def [abs_def])
  from ok d i obtain ids where ids: "astype_int ''inst_id'' ?df3 = Inr ids"
    by (auto simp: format_ids_def w Let_def split: sum.splits if_splits)
  let ?df4 = "set_column ''inst_id'' (map (\<lambda>i. Num (of_int i)) ids) ?df3"
  from ok d i ids obtain ns where ns: "astype_int ''Unit of assessment number'' ?df4 = Inr ns"
    and out: "out = set_column ''uoa_id''
                 (map2 (\<lambda>n r. Str (str_int n @ letter_text num_str (r ''Multiple submission letter'')))
                    ns (rows ?df4)) ?df4"
    by (auto simp: format_ids_def w Let_def split: sum.splits if_splits)
  have l1: "list_all2 (\<lambda>r i. cell_to_int (r ''inst_id'') = Inr i) ?ys ids"
    using astype_int_Inr [OF ids] by simp
  have l2: "list_all2 (\<lambda>r n. cell_to_int (r ''Unit of assessment number'') = Inr n) (rows ?df4) ns"
    using astype_int_Inr [OF ns] .
  have len1: "length ids = length ?xs" using list_all2_lengthD [OF l1] ys by simp
  have r4: "rows ?df4 = map2 (\<lambda>r v. r(''inst_id'' := v)) (map \<rho> ?xs) (map (\<lambda>i. Num (of_int i)) ids)"
    by (simp add: set_column_def ys)
  have len4: "length (rows ?df4) = length ?xs" unfolding r4 using len1 by simp
  have len2: "length ns = length ?xs" using list_all2_lengthD [OF l2] len4 by simp
  have lo: "length (rows out) = length ?xs"
    unfolding out using len4 len2 by (simp add: set_column_def)
  show ?thesis
  proof (rule list_all2_all_nthI)
    show "length ?xs = length (rows out)" using lo by simp
  next
    fix j assume j: "j < length ?xs"
    have a: "cell_to_int (\<rho> (?xs ! j) ''inst_id'') = Inr (ids ! j)"
      using list_all2_nthD [OF l1, of j] j ys by simp
    have r4j: "rows ?df4 ! j = (\<rho> (?xs ! j))(''inst_id'' := Num (of_int (ids ! j)))"
      unfolding r4 using j len1 by simp
    have b: "cell_to_int ((rows ?df4 ! j) ''Unit of assessment number'') = Inr (ns ! j)"
      using list_all2_nthD [OF l2, of j] j len4 by simp
    have oj: "rows out ! j = (rows ?df4 ! j)(''uoa_id'' :=
        Str (str_int (ns ! j) @ letter_text num_str ((rows ?df4 ! j) ''Multiple submission letter'')))"
      unfolding out using j len4 len2 by (simp add: set_column_def)
    show "\<exists>k n. cell_to_int ((?xs ! j) (inst_id_column df)) = Inr k \<and>
            (rows out ! j) ''inst_id'' = Num (of_int k) \<and>
            cell_to_int ((?xs ! j) ''Unit of assessment number'') = Inr n \<and>
            (rows out ! j) ''uoa_id'' = Str (str_int n @ letter_text num_str ((?xs ! j) ''Multiple submission letter''))"
      apply (rule exI [of _ "ids ! j"], rule exI [of _ "ns ! j"])
      using a b pr [OF d, of "?xs ! j"] by (simp add: oj r4j)
  qed
qed

lemma format_ids_prefiltered:
  "format_ids num_str (df\<lparr>rows := filter (not_blank_id df) (rows df)\<rparr>) = format_ids num_str df"
proof -
  obtain \<rho> cs where sh: "\<And>xs. with_inst_id (df\<lparr>rows := xs\<rparr>) = \<lparr>columns = cs, rows = map \<rho> xs\<rparr>"
    and pr: "distinct cs \<Longrightarrow> \<rho> r ''inst_id'' = r (inst_id_column df) \<and>
        \<rho> r ''Unit of assessment number'' = r ''Unit of assessment number'' \<and>
        \<rho> r ''Multiple submission letter'' = r ''Multiple submission letter''" for r
    using with_inst_id_shape [of df] by blast
  have w: "with_inst_id df = \<lparr>columns = cs, rows = map \<rho> (rows df)\<rparr>"
    using sh [of "rows df"] by simp
  show ?thesis
  proof (cases "distinct cs")
    case True
    have "filter (\<lambda>r. r ''inst_id'' \<noteq> Str '' '') (map \<rho> (filter (not_blank_id df) (rows df)))
        = filter (\<lambda>r. r ''inst_id'' \<noteq> Str '' '') (map \<rho> (rows df))"
      using pr [OF True] by (simp add: filter_map o_def not_blank_id_def [abs_def])
    then show ?thesis
      by (simp add: format_ids_def sh w Let_def)
  next
    case False
    then show ?thesis by (simp add: format_ids_def sh w Let_def)
  qed
qed


text \<open>
  C7. Whenever \<open>format_ids\<close> accepts a table, the rows whose institution id is the
  blank placeholder play no part (removing them beforehand gives the same result, so they
  are gone before the cast to integer); the rows of the result are the other rows in
  order, each with its institution id cast to an integer and with \<open>uoa_id\<close> equal to
  the decimal text of the integer-cast unit of assessment number followed by the
  submission letter (nothing for a missing letter); and no \<open>uoa_id\<close> is blank.
\<close>

theorem format_ids_uoa_id:
  assumes ok: "format_ids num_str df = Inr out"
  shows "format_ids num_str (df\<lparr>rows := filter (not_blank_id df) (rows df)\<rparr>) = Inr out \<and>
         list_all2 (\<lambda>r r'. \<exists>k n. cell_to_int (r (inst_id_column df)) = Inr k \<and>
            r' ''inst_id'' = Num (of_int k) \<and>
            cell_to_int (r ''Unit of assessment number'') = Inr n \<and>
            r' ''uoa_id'' = Str (str_int n @ letter_text num_str (r ''Multiple submission letter'')))
          (filter (not_blank_id df) (rows df)) (rows out) \<and>
         (\<forall>r'\<in>set (rows out). \<exists>s. r' ''uoa_id'' = Str s \<and> strip s \<noteq> [])"
proof -
  have a: "format_ids num_str (df\<lparr>rows := filter (not_blank_id df) (rows df)\<rparr>) = Inr out"
    using ok by (simp only: format_ids_prefiltered)
  note b = format_ids_rows [OF ok]
  have c: "\<exists>s. r' ''uoa_id'' = Str s \<and> strip s \<noteq> []" if "r' \<in> set (rows out)" for r'
  proof -
    from that obtain j where j: "j < length (rows out)" "rows out ! j = r'"
      by (auto simp: in_set_conv_nth)
    from list_all2_nthD2 [OF b j(1)] j(2) obtain n t where "r' ''uoa_id'' = Str (str_int n @ t)"
      by auto
    then show ?thesis using str_int_not_blank by simp
  qed
  from a b c show ?thesis by blast
qed

lemma results_example_eval:
  "\<exists>out. format_ids (\<lambda>_. []) results_example = Inr out \<and>
     map (\<lambda>r. r ''inst_id'') (rows out) = [Num 10007783, Num 10007784] \<and>
     map (\<lambda>r. r ''uoa_id'') (rows out) = [Str ''12A'', Str ''4'']"
  by (simp add: format_ids_def with_inst_id_def results_example_def rename_column_def
      set_column_def astype_int_def Let_def trunc_def py_int_def strip_def strip_chars_def
      whitespace_def is_digit_def int_value_def digit_val_def str_int_def str_nat.simps
      digit_char_def)

theorem format_ids_uoa_id_witness:
  "\<exists>out. format_ids (\<lambda>_. []) results_example = Inr out \<and>
     length (rows results_example) = 3 \<and>
     length (filter (not_blank_id results_example) (rows results_example)) = 2 \<and>
     length (rows out) = 2 \<and>
     map (\<lambda>r. r ''uoa_id'') (rows out) = [Str ''12A'', Str ''4''] \<and>
     list_all (\<lambda>r. \<exists>s. r ''uoa_id'' = Str s \<and> strip s \<noteq> []) (rows out)"
proof -
  from results_example_eval obtain out where
    ok: "format_ids (\<lambda>_. []) results_example = Inr out" and
    v: "map (\<lambda>r. r ''uoa_id'') (rows out) = [Str ''12A'', Str ''4'']"
    by (elim exE conjE)
  have n: "length (filter (not_blank_id results_example) (rows results_example)) = 2"
    by (simp add: not_blank_id_def inst_id_column_def results_example_def)
  note t = format_ids_uoa_id [OF ok]
  from t have "length (filter (not_blank_id results_example) (rows results_example)) = length (rows out)"
    by (blast dest: list_all2_lengthD)
  moreover from t have "list_all (\<lambda>r. \<exists>s. r ''uoa_id'' = Str s \<and> strip s \<noteq> []) (rows out)"
    by (simp add: list_all_iff)
  ultimately show ?thesis using ok v n by (auto simp: results_example_def)
qed


lemma cut_colon_from_inside: "CHR 0x0A \<notin> set s \<Longrightarrow> cut_colon_from True s = []"
  by (induction s) auto

lemma cut_colon_one_line:
  "CHR 0x0A \<notin> set s \<Longrightarrow> cut_colon s = takeWhile (\<lambda>c. c \<noteq> CHR '':'') s"
  unfolding cut_colon_def by (induction s) (auto simp: cut_colon_from_inside)


text \<open>
  C9. A row of an item of question 12 whose first four sub-columns are null and whose
  fifth is \<open>(3) extremely possible\<close> collapses to the integer 3, whatever the last two
  hold; the other two anchor labels give -3 and 0, a row of nulls gives null; and in
  general the value is the first sub-column that is not null, with the three labels
  replaced in turn, cast to a nullable integer.
\<close>

theorem likert_collapse_example:
  "Q12_item [None, None, None, None, Some ''(3) extremely possible'', s6, s7] = Inr (Some 3) \<and>
   Q12_item [None, Some ''(-3) not at all possible'', s3, s4, s5, s6, s7] = Inr (Some (- 3)) \<and>
   Q12_item [None, None, None, None, None, None, Some ''(0) neither''] = Inr (Some 0) \<and>
   Q12_item [None, None, None, None, None, None, None] = Inr None \<and>
   Q12_item subs =
     astype_Int64 (map_option
       (\<lambda>s. str_replace ''(0) neither'' ''0''
              (str_replace ''(-3) not at all possible'' ''-3''
                (str_replace ''(3) extremely possible'' ''3'' s)))
       (bfill_first subs))"
proof -
  have a: "Q12_item [None, None, None, None, Some ''(3) extremely possible'', s6, s7]
      = Inr (Some 3)"
    by (simp add: Q12_item_def likert_def astype_Int64_def py_int_def strip_def
        strip_chars_def whitespace_def is_digit_def int_value_def digit_val_def)
  have b: "Q12_item [None, Some ''(-3) not at all possible'', s3, s4, s5, s6, s7]
      = Inr (Some (- 3))"
    by (simp add: Q12_item_def likert_def astype_Int64_def py_int_def strip_def
        strip_chars_def whitespace_def is_digit_def int_value_def digit_val_def)
  have c: "Q12_item [None, None, None, None, None, None, Some ''(0) neither''] = Inr (Some 0)"
    by (simp add: Q12_item_def likert_def astype_Int64_def py_int_def strip_def
        strip_chars_def whitespace_def is_digit_def int_value_def digit_val_def)
  have d: "Q12_item [None, None, None, None, None, None, None] = Inr None"
    by (simp add: Q12_item_def likert_def astype_Int64_def)
  have e: "Q12_item subs =
     astype_Int64 (map_option
       (\<lambda>s. str_replace ''(0) neither'' ''0''
              (str_replace ''(-3) not at all possible'' ''-3''
                (str_replace ''(3) extremely possible'' ''3'' s)))
       (bfill_first subs))"
    by (simp add: Q12_item_def likert_def Let_def option.map_comp o_def)
  from a b c d e show ?thesis by (intro conjI)
qed

lemma gpa_expression:
  "div_const (plus_nan (plus_nan (plus_nan (times_const p4 4) (times_const p3 3))
      (times_const p2 2)) p1) 100 = gpa_spec p4 p3 p2 p1"
  by (simp add: gpa_spec_def div_const_def plus_nan_def times_const_def algebra_simps
      split: option.splits)

theorem gpa_example_is_not_2_9:
  "ICS_GPA (\<lambda>s. None) score_row_example \<noteq> Some 2.9"
  by (simp add: ICS_GPA_def score_row_example_def to_numeric_def div_const_def plus_nan_def
      times_const_def)

text \<open>
  C6 (amended). For every department row and each of the four profile types the derived
  GPA is the formula of the specification applied to the four score-band cells of that
  profile after numeric coercion: (4 p4 + 3 p3 + 2 p2 + p1) / 100 when all four are
  numbers, and null as soon as one of them is not a number. The bands 20, 50, 20, 10, 0
  give 2.8.
\<close>

theorem gpa_formula:
  "ICS_GPA parse r =
     gpa_spec (to_numeric parse (r ''4*_Impact'')) (to_numeric parse (r ''3*_Impact''))
       (to_numeric parse (r ''2*_Impact'')) (to_numeric parse (r ''1*_Impact'')) \<and>
   Environment_GPA parse r =
     gpa_spec (to_numeric parse (r ''4*_Environment'')) (to_numeric parse (r ''3*_Environment''))
       (to_numeric parse (r ''2*_Environment'')) (to_numeric parse (r ''1*_Environment'')) \<and>
   Output_GPA parse r =
     gpa_spec (to_numeric parse (r ''4*_Outputs'')) (to_numeric parse (r ''3*_Outputs''))
       (to_numeric parse (r ''2*_Outputs'')) (to_numeric parse (r ''1*_Outputs'')) \<and>
   Overall_GPA parse r =
     gpa_spec (to_numeric parse (r ''4*_Overall'')) (to_numeric parse (r ''3*_Overall''))
       (to_numeric parse (r ''2*_Overall'')) (to_numeric parse (r ''1*_Overall'')) \<and>
   gpa_spec (Some a) (Some b) (Some c) (Some d) = Some ((4 * a + 3 * b + 2 * c + 1 * d) / 100) \<and>
   gpa_spec None p3 p2 p1 = None \<and> gpa_spec p4 None p2 p1 = None \<and>
   gpa_spec p4 p3 None p1 = None \<and> gpa_spec p4 p3 p2 None = None \<and>
   ICS_GPA parse score_row_example = Some 2.8 \<and>
   Environment_GPA parse score_row_example = Some 2.8 \<and>
   Output_GPA parse score_row_example = Some 2.8 \<and>
   Overall_GPA parse score_row_example = Some 2.8 \<and>
   ICS_GPA (\<lambda>s. None) (score_row_example(''3*_Impact'' := Str ''-'')) = None"
proof -
  have f: "ICS_GPA parse r =
     gpa_spec (to_numeric parse (r ''4*_Impact'')) (to_numeric parse (r ''3*_Impact''))
       (to_numeric parse (r ''2*_Impact'')) (to_numeric parse (r ''1*_Impact''))"
   "Environment_GPA parse r =
     gpa_spec (to_numeric parse (r ''4*_Environment'')) (to_numeric parse (r ''3*_Environment''))
       (to_numeric parse (r ''2*_Environment'')) (to_numeric parse (r ''1*_Environment''))"
   "Output_GPA parse r =
     gpa_spec (to_numeric parse (r ''4*_Outputs'')) (to_numeric parse (r ''3*_Outputs''))
       (to_numeric parse (r ''2*_Outputs'')) (to_numeric parse (r ''1*_Outputs''))"
   "Overall_GPA parse r =
     gpa_spec (to_numeric parse (r ''4*_Overall'')) (to_numeric parse (r ''3*_Overall''))
       (to_numeric parse (r ''2*_Overall'')) (to_numeric parse (r ''1*_Overall''))"
    for parse :: "string \<Rightarrow> real option" and r :: row
    by (simp_all only: ICS_GPA_def Environment_GPA_def Output_GPA_def Overall_GPA_def
        gpa_expression)
  have g: "gpa_spec (Some a) (Some b) (Some c) (Some d) = Some ((4 * a + 3 * b + 2 * c + 1 * d) / 100)"
    by (simp add: gpa_spec_def)
  have n: "gpa_spec None p3 p2 p1 = None" "gpa_spec p4 None p2 p1 = None"
    "gpa_spec p4 p3 None p1 = None" "gpa_spec p4 p3 p2 None = None"
    by (simp_all add: gpa_spec_def split: option.splits)
  have e: "ICS_GPA parse score_row_example = Some 2.8"
    "Environment_GPA parse score_row_example = Some 2.8"
    "Output_GPA parse score_row_example = Some 2.8"
    "Overall_GPA parse score_row_example = Some 2.8"
    unfolding f by (simp_all add: score_row_example_def to_numeric_def gpa_spec_def)
  have t: "ICS_GPA (\<lambda>s. None) (score_row_example(''3*_Impact'' := Str ''-'')) = None"
    unfolding f by (simp add: score_row_example_def to_numeric_def gpa_spec_def)
  from f [of parse r] g n e t show ?thesis by (intro conjI)
qed

lemma merge_left_Inr:
  assumes "merge_left lo ro L R = Inr M"
  shows "rows M = concat (map
            (\<lambda>l. map (join_row (columns L) (kept_right lo ro R)
                        (filter (\<lambda>c. c \<in> set (kept_right lo ro R)) (columns L)) l)
                     (matches lo ro l R))
            (rows L))"
    and "columns M =
           map (suffixed (filter (\<lambda>c. c \<in> set (kept_right lo ro R)) (columns L)) ''_x'') (columns L) @
           map (suffixed (filter (\<lambda>c. c \<in> set (kept_right lo ro R)) (columns L)) ''_y'')
             (kept_right lo ro R)"
    and "distinct (columns M)"
  using assms by (auto simp: merge_left_def Let_def split: if_splits)

lemma merge_left_not_assertion: "merge_left lo ro L R \<noteq> Inl AssertionError"
  by (simp add: merge_left_def Let_def)

lemma length_matches:
  "length (matches lo ro l R) = max 1 (length (filter (\<lambda>r. map r ro = map l lo) (rows R)))"
  by (simp add: matches_def split: list.splits)

lemma merge_left_length:
  assumes "merge_left lo ro L R = Inr M"
  shows "length (rows M) =
    sum_list (map (\<lambda>l. max 1 (length (filter (\<lambda>r. map r ro = map l lo) (rows R)))) (rows L))"
  unfolding merge_left_Inr(1) [OF assms]
  by (simp add: length_concat o_def length_matches)

lemma sum_list_ge_length:
  "(\<And>x. x \<in> set xs \<Longrightarrow> 1 \<le> f x) \<Longrightarrow> length xs \<le> sum_list (map f xs)" for f :: "'a \<Rightarrow> nat"
proof (induction xs)
  case Nil
  then show ?case by simp
next
  case (Cons a xs)
  have "1 \<le> f a" using Cons.prems by simp
  moreover have "length xs \<le> sum_list (map f xs)" using Cons by simp
  ultimately show ?case by simp
qed

lemma sum_list_eq_length:
  "(\<And>x. x \<in> set xs \<Longrightarrow> f x = 1) \<Longrightarrow> sum_list (map f xs) = length xs" for f :: "'a \<Rightarrow> nat"
  by (induction xs) simp_all

lemma filter_key_le1:
  "distinct (map k xs) \<Longrightarrow> length (filter (\<lambda>x. k x = v) xs) \<le> 1"
proof (induction xs)
  case Nil
  then show ?case by simp
next
  case (Cons a xs)
  show ?case
  proof (cases "k a = v")
    case True
    then have "v \<notin> k ` set xs" using Cons.prems by auto
    then have "filter (\<lambda>x. k x = v) xs = []" by (auto simp: filter_empty_conv)
    with True show ?thesis by simp
  next
    case False
    with Cons show ?thesis by simp
  qed
qed

theorem merge_ins_uoa_null_fill_counterexample:
  "cells (merge_ins_uoa staff_example income_example ''inst_id'' ''uoa_id'')
     = Inr [[Num 1, Str ''12'', Num 10, NaN]] \<and>
   zip (column_values ''inst_id'' staff_example) (column_values ''uoa_id'' staff_example)
     = [(Num 1, Str ''12'')] \<and>
   zip (column_values ''inst_id'' income_example) (column_values ''uoa_id'' income_example)
     = [(Num 1, Str ''4''), (Num 2, Str ''12'')]"
  by (simp add: cells_def merge_ins_uoa_def merge_left_def staff_example_def income_example_def
      table_def column_values_def isin_def kept_right_def shared_keys_def suffixed_def
      matches_def join_row_def Let_def)

text \<open>
  C2 (amended). When both tables have both key columns, \<open>merge_ins_uoa\<close> fails with an
  assertion violation exactly when some value of the first key column of the left table
  does not occur in that column of the right table, or some value of the second key
  column of the left table does not occur in that column of the right table. The check
  is made column by column, not on pairs.
\<close>

theorem merge_ins_uoa_asserts_columns:
  assumes "id1 \<in> set (columns df1)" and "id1 \<in> set (columns df2)"
    and "id2 \<in> set (columns df1)" and "id2 \<in> set (columns df2)"
  shows "(merge_ins_uoa df1 df2 id1 id2 = Inl AssertionError) =
         ((\<exists>v \<in> set (column_values id1 df1). v \<notin> set (column_values id1 df2)) \<or>
          (\<exists>v \<in> set (column_values id2 df1). v \<notin> set (column_values id2 df2)))"
  using assms merge_left_not_assertion [of "[id1, id2]" "[id1, id2]" df1 df2]
  by (auto simp: merge_ins_uoa_def isin_def list_all_iff)

theorem merge_ins_uoa_asserts_columns_witness:
  "''inst_id'' \<in> set (columns staff_example) \<and> ''inst_id'' \<in> set (columns income_example) \<and>
   ''uoa_id'' \<in> set (columns staff_example) \<and> ''uoa_id'' \<in> set (columns income_example) \<and>
   merge_ins_uoa staff_example income_example ''inst_id'' ''uoa_id'' \<noteq> Inl AssertionError \<and>
   merge_ins_uoa income_example staff_example ''inst_id'' ''uoa_id'' = Inl AssertionError"
proof -
  have c: "''inst_id'' \<in> set (columns staff_example)" "''inst_id'' \<in> set (columns income_example)"
    "''uoa_id'' \<in> set (columns staff_example)" "''uoa_id'' \<in> set (columns income_example)"
    by (simp_all add: staff_example_def income_example_def table_def)
  have a: "\<not> ((\<exists>v \<in> set (column_values ''inst_id'' staff_example).
                 v \<notin> set (column_values ''inst_id'' income_example)) \<or>
             (\<exists>v \<in> set (column_values ''uoa_id'' staff_example).
                 v \<notin> set (column_values ''uoa_id'' income_example)))"
    by (simp add: staff_example_def income_example_def table_def column_values_def)
  have b: "(\<exists>v \<in> set (column_values ''inst_id'' income_example).
                 v \<notin> set (column_values ''inst_id'' staff_example))"
    by (simp add: staff_example_def income_example_def table_def column_values_def)
  from merge_ins_uoa_asserts_columns [OF c(1) c(2) c(3) c(4)] a
  have 1: "merge_ins_uoa staff_example income_example ''inst_id'' ''uoa_id'' \<noteq> Inl AssertionError"
    by simp
  from merge_ins_uoa_asserts_columns [OF c(2) c(1) c(4) c(3)] b
  have 2: "merge_ins_uoa income_example staff_example ''inst_id'' ''uoa_id'' = Inl AssertionError"
    by simp
  from c 1 2 show ?thesis by (intro conjI)
qed

theorem merge_ins_uoa_row_count_counterexample:
  "cells (merge_ins_uoa staff_example income_twice_example ''inst_id'' ''uoa_id'')
     = Inr [[Num 1, Str ''12'', Num 10, Num 300], [Num 1, Str ''12'', Num 10, Num 250]] \<and>
   length (rows staff_example) = 1"
  by (simp add: cells_def merge_ins_uoa_def merge_left_def staff_example_def
      income_twice_example_def table_def column_values_def isin_def kept_right_def
      shared_keys_def suffixed_def matches_def join_row_def Let_def)

text \<open>
  C3 (amended). When the assertions of \<open>merge_ins_uoa\<close> pass and it returns a table,
  every row of the left table gives one row of the result for each row of the right table
  with the same pair of key cells, and one row when there is none. So the result has at
  least as many rows as the left table, and exactly as many when no two rows of the right
  table hold the same pair of key cells.
\<close>

theorem merge_ins_uoa_row_count:
  assumes "merge_ins_uoa df1 df2 id1 id2 = Inr out"
  shows "length (rows out) =
           sum_list (map (\<lambda>l. max 1 (length (filter (\<lambda>r. r id1 = l id1 \<and> r id2 = l id2) (rows df2))))
             (rows df1)) \<and>
         length (rows df1) \<le> length (rows out) \<and>
         (distinct (map (\<lambda>r. (r id1, r id2)) (rows df2)) \<longrightarrow>
            length (rows out) = length (rows df1))"
proof -
  from assms have m: "merge_left [id1, id2] [id1, id2] df1 df2 = Inr out"
    by (simp add: merge_ins_uoa_def split: if_splits)
  let ?n = "\<lambda>l. length (filter (\<lambda>r. r id1 = l id1 \<and> r id2 = l id2) (rows df2))"
  have len: "length (rows out) = sum_list (map (\<lambda>l. max 1 (?n l)) (rows df1))"
    using merge_left_length [OF m] by simp
  have ge: "length (rows df1) \<le> length (rows out)"
    unfolding len by (rule sum_list_ge_length) simp
  have eq: "length (rows out) = length (rows df1)"
    if d: "distinct (map (\<lambda>r. (r id1, r id2)) (rows df2))"
  proof -
    have "max 1 (?n l) = 1" for l
      using filter_key_le1 [OF d, of "(l id1, l id2)"] by simp
    then show ?thesis unfolding len by (intro sum_list_eq_length) simp
  qed
  from len ge eq show ?thesis by blast
qed

theorem merge_ins_uoa_row_count_witness:
  "cells (merge_ins_uoa staff_example income_once_example ''inst_id'' ''uoa_id'')
     = Inr [[Num 1, Str ''12'', Num 10, Num 300]] \<and>
   distinct (map (\<lambda>r. (r ''inst_id'', r ''uoa_id'')) (rows income_once_example)) \<and>
   length (rows staff_example) = 1"
proof -
  have c: "cells (merge_ins_uoa staff_example income_once_example ''inst_id'' ''uoa_id'')
     = Inr [[Num 1, Str ''12'', Num 10, Num 300]]"
    by (simp add: cells_def merge_ins_uoa_def merge_left_def staff_example_def
      income_once_example_def table_def column_values_def isin_def kept_right_def
      shared_keys_def suffixed_def matches_def join_row_def Let_def)
  then obtain out where
    o: "merge_ins_uoa staff_example income_once_example ''inst_id'' ''uoa_id'' = Inr out"
    by (auto simp: cells_def split: sum.splits)
  have d: "distinct (map (\<lambda>r. (r ''inst_id'', r ''uoa_id'')) (rows income_once_example))"
    by (simp add: income_once_example_def table_def)
  from merge_ins_uoa_row_count [OF o] d
  have e: "length (rows out) = length (rows staff_example)"
    by blast
  have "map (\<lambda>r. map r (columns out)) (rows out) = [[Num 1, Str ''12'', Num 10, Num 300]]"
    using c o by (simp add: cells_def)
  then have "length (map (\<lambda>r. map r (columns out)) (rows out)) = 1" by simp
  then have "length (rows staff_example) = 1" using e by simp
  with c d show ?thesis by (intro conjI)
qed

subsection \<open>Blocks\<close>




lemma matches_nonempty: "matches lo ro l R \<noteq> []"
  by (simp add: matches_def split: list.splits)

lemma rows_set_column_map:
  "rows (set_column name (map f (rows df)) df) = map (\<lambda>r. r(name := f r)) (rows df)"
  by (simp add: set_column_def map2_map_map [symmetric] zip_map2 map_zip_map2 zip_same_conv_map)





lemma final_merge_Inr:
  assumes "final_merge df_clean raw_dep classification df_manual = Inr out"
  obtains m1 m2 m3 where
    "''uoa_id'' \<in> set (columns raw_dep)"
    "merge_left [''Q3'', ''Q8_uoa''] [''Institution name'', ''uoa_id''] df_clean
       (set_column ''uoa_id'' (map (\<lambda>r. uoa_id_number (r ''uoa_id'')) (rows raw_dep)) raw_dep)
       = Inr m1"
    "merge_left [''PIPD''] [''Q28''] m1 classification = Inr m2"
    "merge_left [''Q3''] [''Q3''] m2 df_manual = Inr m3"
    "out = set_column ''is_redbrick''
             (map (flag_or_zero ''is_redbrick'')
                (rows (set_column ''is_oxbridge'' (map (flag_or_zero ''is_oxbridge'') (rows m3)) m3)))
             (set_column ''is_oxbridge'' (map (flag_or_zero ''is_oxbridge'') (rows m3)) m3)"
  using assms unfolding final_merge_def Let_def
  by (auto split: if_splits sum.splits)

lemma final_merge_rows_out:
  assumes "out = set_column ''is_redbrick''
             (map (flag_or_zero ''is_redbrick'')
                (rows (set_column ''is_oxbridge'' (map (flag_or_zero ''is_oxbridge'') (rows m3)) m3)))
             (set_column ''is_oxbridge'' (map (flag_or_zero ''is_oxbridge'') (rows m3)) m3)"
  shows "rows out = map (\<lambda>r. (r(''is_oxbridge'' := flag_or_zero ''is_oxbridge'' r))
            (''is_redbrick'' := flag_or_zero ''is_redbrick'' (r(''is_oxbridge'' := flag_or_zero ''is_oxbridge'' r))))
          (rows m3)"
proof -
  define m4 where "m4 = set_column ''is_oxbridge'' (map (flag_or_zero ''is_oxbridge'') (rows m3)) m3"
  have r4: "rows m4 = map (\<lambda>r. r(''is_oxbridge'' := flag_or_zero ''is_oxbridge'' r)) (rows m3)"
    unfolding m4_def by (rule rows_set_column_map)
  have "out = set_column ''is_redbrick'' (map (flag_or_zero ''is_redbrick'') (rows m4)) m4"
    unfolding assms m4_def ..
  then have "rows out = map (\<lambda>r. r(''is_redbrick'' := flag_or_zero ''is_redbrick'' r)) (rows m4)"
    by (simp only: rows_set_column_map)
  then show ?thesis by (simp add: r4 o_def)
qed



subsection \<open>The final merge, cell by cell\<close>
























lemma final_merge_Q1_other:
  assumes ok: "final_merge df_clean raw_dep classification df_manual = Inr out"
    and r: "r \<in> set (rows out)" and q: "r ''Q1'' = Str ''Other''"
  shows "r ''is_oxbridge'' = Num 0 \<and> r ''is_redbrick'' = Num 0"
proof -
  from ok obtain m1 m2 m3 where
    o: "out = set_column ''is_redbrick''
             (map (flag_or_zero ''is_redbrick'')
                (rows (set_column ''is_oxbridge'' (map (flag_or_zero ''is_oxbridge'') (rows m3)) m3)))
             (set_column ''is_oxbridge'' (map (flag_or_zero ''is_oxbridge'') (rows m3)) m3)"
    by (rule final_merge_Inr)
  from r obtain o3 where
    "r = (o3(''is_oxbridge'' := flag_or_zero ''is_oxbridge'' o3))
            (''is_redbrick'' := flag_or_zero ''is_redbrick'' (o3(''is_oxbridge'' := flag_or_zero ''is_oxbridge'' o3)))"
    unfolding final_merge_rows_out [OF o] by auto
  with q show ?thesis by (simp add: flag_or_zero_def np_where_def)
qed








text \<open>
  C4. On a survey table whose second respondent reports the institution \<open>Other\<close>
  (column \<open>Q3\<close>) and holds \<open>Academic\<close> in column \<open>Q1\<close>, with a lookup table that has no
  row for \<open>Other\<close>, the final merge leaves both institution-type flags of that
  respondent missing: the overwriting with 0 tests column \<open>Q1\<close>, not \<open>Q3\<close>.
\<close>

theorem final_merge_other_institution_flags:
  "map_sum id columns (final_merge respondents_example one_submission_example
      classification_example manual_example)
     = Inr [''Q1'', ''Q3'', ''Q8_uoa'', ''PIPD'', ''Institution name'', ''uoa_id'', ''ICS_GPA'',
            ''Q28'', ''category'', ''is_oxbridge'', ''is_redbrick''] \<and>
   map_sum id (map (\<lambda>r. [r ''Q1'', r ''Q3'', r ''is_oxbridge'', r ''is_redbrick'']) \<circ> rows)
     (final_merge respondents_example one_submission_example classification_example
        manual_example)
     = Inr [[Str ''Academic'', Str ''University of Oxford'', Num 1, Num 0],
            [Str ''Academic'', Str ''Other'', NaN, NaN]]"
  by (simp add: final_merge_def merge_left_def respondents_example_def
      one_submission_example_def classification_example_def manual_example_def table_def
      set_column_def kept_right_def shared_keys_def suffixed_def matches_def join_row_def
      flag_or_zero_def np_where_def uoa_id_number_def is_digit_def py_int_def strip_def
      strip_chars_def whitespace_def int_value_def digit_val_def Let_def)

end
